theory Spec2Isabelle
  imports Complex_Main "HOL-Library.AList"
begin

section \<open>JavaScript values used by the intake map page\<close>

text \<open>
  The page's numeric fields have the TypeScript type \<open>number\<close>. A number is modelled as
  a finite real or one of the three non-finite values, so that \<open>Number.isFinite\<close>, the
  comparisons with \<open>NaN\<close> and \<open>Math.round\<close> are branches of the model. Finite arithmetic
  is exact here: the rounding error of double precision is not modelled.
\<close>

datatype jsnum = Finite real | NaN | PosInfinity | NegInfinity

fun isFinite :: "jsnum \<Rightarrow> bool" where
  "isFinite (Finite r) = True"
| "isFinite n = False"

text \<open>\<open>a <= b\<close>, \<open>a < b\<close> and \<open>a >= b\<close> of JavaScript: every comparison with \<open>NaN\<close> is false.\<close>

fun js_le :: "jsnum \<Rightarrow> jsnum \<Rightarrow> bool" where
  "js_le NaN b = False"
| "js_le a NaN = False"
| "js_le (Finite a) (Finite b) = (a \<le> b)"
| "js_le NegInfinity b = True"
| "js_le a PosInfinity = True"
| "js_le a b = False"

fun js_lt :: "jsnum \<Rightarrow> jsnum \<Rightarrow> bool" where
  "js_lt NaN b = False"
| "js_lt a NaN = False"
| "js_lt (Finite a) (Finite b) = (a < b)"
| "js_lt PosInfinity b = False"
| "js_lt a NegInfinity = False"
| "js_lt a b = True"

definition js_ge :: "jsnum \<Rightarrow> jsnum \<Rightarrow> bool" where
  "js_ge a b = js_le b a"

text \<open>\<open>a + b\<close> of JavaScript.\<close>

fun js_add :: "jsnum \<Rightarrow> jsnum \<Rightarrow> jsnum" where
  "js_add NaN b = NaN"
| "js_add a NaN = NaN"
| "js_add (Finite a) (Finite b) = Finite (a + b)"
| "js_add PosInfinity NegInfinity = NaN"
| "js_add NegInfinity PosInfinity = NaN"
| "js_add PosInfinity b = PosInfinity"
| "js_add a PosInfinity = PosInfinity"
| "js_add NegInfinity b = NegInfinity"
| "js_add a NegInfinity = NegInfinity"

text \<open>\<open>Math.round\<close>: the nearest integer, a tie going up; non-finite values are kept.\<close>

fun Math_round :: "jsnum \<Rightarrow> jsnum" where
  "Math_round (Finite r) = Finite (of_int \<lfloor>r + 1 / 2\<rfloor>)"
| "Math_round n = n"

text \<open>
  A JavaScript string is a sequence of UTF-16 code units; a code unit is a natural number
  below \<open>65536\<close>. \<open>ascii\<close> gives the code units of an ASCII text. Texts the page
  never inspects (names, ids, time stamps, style values, documents, field names) stay
  of type \<open>string\<close>.
\<close>

type_synonym jsstring = "nat list"

definition ascii :: "string \<Rightarrow> jsstring" where
  "ascii s = map of_char s"

text \<open>
  \<open>String.prototype.trim\<close> strips white space and line terminators from both ends:
  TAB, LF, VT, FF, CR, the space, the no-break space, the other space separators of
  Unicode (\<open>U+1680\<close>, \<open>U+2000\<close> to \<open>U+200A\<close>, \<open>U+202F\<close>, \<open>U+205F\<close>, \<open>U+3000\<close>), the
  line and paragraph separators and \<open>U+FEFF\<close>. Each is one code unit.
\<close>

definition isWhiteSpace :: "nat \<Rightarrow> bool" where
  "isWhiteSpace u =
     (u \<in> {0x9, 0xA, 0xB, 0xC, 0xD, 0x20, 0xA0, 0x1680, 0x2028, 0x2029, 0x202F, 0x205F,
            0x3000, 0xFEFF}
      \<or> (0x2000 \<le> u \<and> u \<le> 0x200A))"

definition trim :: "jsstring \<Rightarrow> jsstring" where
  "trim s = rev (dropWhile isWhiteSpace (rev (dropWhile isWhiteSpace s)))"

text \<open>
  \<open>String.prototype.toUpperCase\<close> reads the string as code points (a leading surrogate
  followed by a trailing one is one code point, any other code unit stands for itself),
  replaces every code point by its upper-case mapping of the Unicode character database,
  which may be several code points, and encodes the result in UTF-16 again. The mapping
  is a table of the engine and not part of the page: it is the parameter \<open>upperMap\<close>, and
  nothing is assumed of it.
\<close>

definition isLeadingSurrogate :: "nat \<Rightarrow> bool" where
  "isLeadingSurrogate u = (0xD800 \<le> u \<and> u \<le> 0xDBFF)"

definition isTrailingSurrogate :: "nat \<Rightarrow> bool" where
  "isTrailingSurrogate u = (0xDC00 \<le> u \<and> u \<le> 0xDFFF)"

fun StringToCodePoints :: "jsstring \<Rightarrow> nat list" where
  "StringToCodePoints (a # b # s) =
     (if isLeadingSurrogate a \<and> isTrailingSurrogate b
      then ((a - 0xD800) * 0x400 + (b - 0xDC00) + 0x10000) # StringToCodePoints s
      else a # StringToCodePoints (b # s))"
| "StringToCodePoints s = s"

definition CodePointToString :: "nat \<Rightarrow> jsstring" where
  "CodePointToString cp =
     (if cp \<le> 0xFFFF then [cp]
      else [(cp - 0x10000) div 0x400 + 0xD800, (cp - 0x10000) mod 0x400 + 0xDC00])"

definition toUpperCase :: "(nat \<Rightarrow> nat list) \<Rightarrow> jsstring \<Rightarrow> jsstring" where
  "toUpperCase upperMap s =
     concat (map CodePointToString (concat (map upperMap (StringToCodePoints s))))"

text \<open>\<open>Array.prototype.findIndex\<close>: the first index whose element satisfies the predicate;
  \<open>None\<close> stands for the result \<open>-1\<close>.\<close>

fun findIndex :: "('a \<Rightarrow> bool) \<Rightarrow> 'a list \<Rightarrow> nat option" where
  "findIndex P [] = None"
| "findIndex P (x # xs) = (if P x then Some 0 else map_option Suc (findIndex P xs))"

section \<open>The data of the intake map page\<close>

datatype StateStatus = Active | Low | Inactive

text \<open>The status filter \<open>'all' | StateStatus\<close>.\<close>

datatype StatusFilter = All | Only StateStatus

record StateIntake =
  code :: jsstring
  name :: string
  currentVolume :: jsnum
  targetVolume :: jsnum
  salesNext30Days :: jsnum
  status :: StateStatus
  fulfilled :: jsnum
  pending :: jsnum

record IntakeOrder =
  order_id :: string
  stateCode :: jsstring
  volume :: jsnum
  salesForecast :: jsnum
  days :: jsnum
  createdAt :: string

record OrderForm =
  form_stateCode :: jsstring
  form_volume :: jsnum
  form_salesForecast :: jsnum
  form_days :: jsnum

text \<open>A \<open>DOMRect\<close> as \<open>getBBox\<close> returns it.\<close>

record DOMRect =
  box_x :: real
  box_y :: real
  box_width :: real
  box_height :: real

text \<open>
  A shape of the map document selected by \<open>path[data-id]\<close>: its \<open>data-id\<close> attribute
  (present, possibly empty), its \<open>id\<close> attribute (possibly absent), the result of
  \<open>getBBox\<close> (\<open>None\<close> when it throws) and the style properties the page sets. The
  opacity is the number the style string denotes.
\<close>

record SvgPath =
  data_id :: jsstring
  id_attr :: "jsstring option"
  bbox :: "DOMRect option"
  fill :: string
  stroke :: string
  stroke_width :: string
  cursor :: string
  opacity :: real

text \<open>A \<open>text\<close> element of the label group.\<close>

record SvgLabel =
  textContent :: jsstring
  label_x :: real
  label_y :: real
  font_size :: real

text \<open>The \<open>svg\<close> element under the map root: its region shapes and the group
  \<open>#state-labels\<close>, \<open>None\<close> while there is none.\<close>

record SvgDoc =
  paths :: "SvgPath list"
  labels :: "SvgLabel list option"

text \<open>The refs of the page. \<open>svg\<close> is \<open>None\<close> when the map root is not mounted or
  holds no \<open>svg\<close> element.\<close>

record Page =
  orders :: "IntakeOrder list"
  mockStates :: "StateIntake list"
  createOrderOpen :: bool
  orderForm :: OrderForm
  selectedStatus :: StatusFilter
  svg :: "SvgDoc option"

definition resetOrderForm :: "Page \<Rightarrow> Page" where
  "resetOrderForm st =
     st\<lparr>orderForm := \<lparr>form_stateCode = [], form_volume = Finite 1,
                         form_salesForecast = Finite 5, form_days = Finite 30\<rparr>\<rparr>"

definition filteredStates :: "Page \<Rightarrow> StateIntake list" where
  "filteredStates st =
     (case selectedStatus st of
        All \<Rightarrow> mockStates st
      | Only f \<Rightarrow> filter (\<lambda>s. status s = f) (mockStates st))"

text \<open>The \<open>Map\<close> built by \<open>forEach (s => map.set(s.code, s))\<close>: a later region with the
  same code replaces an earlier one.\<close>

definition stateByCode :: "Page \<Rightarrow> jsstring \<Rightarrow> StateIntake option" where
  "stateByCode st = foldl (\<lambda>m s. m(code s \<mapsto> s)) Map.empty (mockStates st)"

fun getStatusColor :: "StateStatus \<Rightarrow> string" where
  "getStatusColor Active = ''#22c55e''"
| "getStatusColor Low = ''#eab308''"
| "getStatusColor Inactive = ''#ef4444''"

section \<open>Coloring and labeling passes\<close>

text \<open>\<open>p.getAttribute('data-id') || p.getAttribute('id')\<close>; \<open>None\<close> when the result is
  falsy (both absent or empty).\<close>

definition shapeCode :: "SvgPath \<Rightarrow> jsstring option" where
  "shapeCode p =
     (if data_id p \<noteq> [] then Some (data_id p)
      else (case id_attr p of
              None \<Rightarrow> None
            | Some s \<Rightarrow> if s \<noteq> [] then Some s else None))"

text \<open>The body of the \<open>forEach\<close> of \<open>applyMapColors\<close>.\<close>

definition colorPath :: "Page \<Rightarrow> SvgPath \<Rightarrow> SvgPath" where
  "colorPath st p =
     (case shapeCode p of
        None \<Rightarrow> p
      | Some c \<Rightarrow>
          let visibleSet = set (map code (filteredStates st));
              state = stateByCode st c;
              isVisible = (if selectedStatus st = All then True else c \<in> visibleSet);
              fill' = (case state of
                         Some s \<Rightarrow> if isVisible then getStatusColor (status s) else ''#e5e7eb''
                       | None \<Rightarrow> ''#e5e7eb'')
          in p\<lparr>fill := fill', stroke := ''#0b0b0b'', stroke_width := ''0.8'',
                cursor := (if state \<noteq> None then ''pointer'' else ''default''),
                opacity := (if isVisible then 1 else 15 / 100)\<rparr>)"

text \<open>The body of the \<open>forEach\<close> of \<open>applyStateLabels\<close>: \<open>g\<close> is the label group built so
  far; every \<open>return\<close> leaves it as it is.\<close>

definition labelPath :: "Page \<Rightarrow> SvgLabel list \<Rightarrow> SvgPath \<Rightarrow> SvgLabel list" where
  "labelPath st g p =
     (case shapeCode p of
        None \<Rightarrow> g
      | Some c \<Rightarrow>
          (case bbox p of
             None \<Rightarrow> g
           | Some b \<Rightarrow>
               let cx = box_x b + box_width b / 2;
                   cy = box_y b + box_height b / 2;
                   isVisible = (if selectedStatus st = All then True
                                else list_ex (\<lambda>s. code s = c) (filteredStates st))
               in if \<not> isVisible then g
                  else g @ [\<lparr>textContent = c, label_x = cx, label_y = cy,
                              font_size = max 6 (min (box_width b) (box_height b) / 3)\<rparr>]))"

definition applyStateLabels :: "Page \<Rightarrow> Page" where
  "applyStateLabels st =
     (case svg st of
        None \<Rightarrow> st
      | Some d \<Rightarrow> st\<lparr>svg := Some (d\<lparr>labels := Some (foldl (labelPath st) [] (paths d))\<rparr>)\<rparr>)"

definition applyMapColors :: "Page \<Rightarrow> Page" where
  "applyMapColors st =
     (case svg st of
        None \<Rightarrow> st
      | Some d \<Rightarrow> applyStateLabels (st\<lparr>svg := Some (d\<lparr>paths := map (colorPath st) (paths d)\<rparr>)\<rparr>))"

section \<open>Order submission\<close>

text \<open>
  \<open>createOrder\<close>. The fields of the form hold a string and three numbers, as their
  TypeScript types say, so \<open>String(...)\<close> and \<open>Number(...)\<close> return them as they are. The
  random token of the id and the time stamp come from the environment and are
  parameters, as is the upper-case mapping of the engine. The update of the matching
  region is \<open>bumpState\<close>.
\<close>

definition bumpState :: "jsnum \<Rightarrow> jsnum \<Rightarrow> jsnum \<Rightarrow> StateIntake \<Rightarrow> StateIntake" where
  "bumpState vol fc ds s =
     (let s1 = s\<lparr>currentVolume := js_add (currentVolume s) (Math_round vol)\<rparr>;
          s2 = s1\<lparr>pending := js_add (pending s1) (Math_round vol)\<rparr>;
          s3 = (if ds = Finite 30
                then s2\<lparr>salesNext30Days := js_add (salesNext30Days s2) (Math_round fc)\<rparr>
                else s2)
      in s3\<lparr>status := (if js_ge (currentVolume s3) (targetVolume s3) then Active else Low)\<rparr>)"

definition createOrder :: "(nat \<Rightarrow> nat list) \<Rightarrow> string \<Rightarrow> string \<Rightarrow> Page \<Rightarrow> Page" where
  "createOrder upperMap rnd now st =
     (let sc = toUpperCase upperMap (trim (form_stateCode (orderForm st)));
          vol = form_volume (orderForm st);
          fc = form_salesForecast (orderForm st);
          ds = form_days (orderForm st)
      in if sc = [] \<or> \<not> isFinite vol \<or> js_le vol (Finite 0) then st
         else if \<not> isFinite fc \<or> js_lt fc (Finite 0) then st
         else if \<not> isFinite ds \<or> js_le ds (Finite 0) then st
         else
           let st1 = st\<lparr>orders :=
                         \<lparr>order_id = ''O-'' @ rnd, stateCode = sc, volume = Math_round vol,
                          salesForecast = Math_round fc, days = Math_round ds,
                          createdAt = now\<rparr> # orders st\<rparr>;
               st2 = (case findIndex (\<lambda>s. code s = sc) (mockStates st1) of
                        None \<Rightarrow> st1
                      | Some idx \<Rightarrow>
                          st1\<lparr>mockStates :=
                                (mockStates st1)[idx := bumpState vol fc ds (mockStates st1 ! idx)]\<rparr>);
               st3 = st2\<lparr>createOrderOpen := False\<rparr>
           in applyMapColors (resetOrderForm st3))"

text \<open>The guards of \<open>createOrder\<close> all passed: the submission is accepted.\<close>

definition accepted :: "(nat \<Rightarrow> nat list) \<Rightarrow> OrderForm \<Rightarrow> bool" where
  "accepted upperMap f =
     (toUpperCase upperMap (trim (form_stateCode f)) \<noteq> [] \<and>
      isFinite (form_volume f) \<and> \<not> js_le (form_volume f) (Finite 0) \<and>
      isFinite (form_salesForecast f) \<and> \<not> js_lt (form_salesForecast f) (Finite 0) \<and>
      isFinite (form_days f) \<and> \<not> js_le (form_days f) (Finite 0))"

section \<open>The tooltip\<close>

text \<open>
  The measurements the DOM hands to \<open>handleMouseMove\<close> are finite numbers: the pointer
  position of the event, the bounding client rectangle of the map root (\<open>None\<close> when it
  is not mounted) and the offset size of the tooltip element (\<open>None\<close> when it is not
  rendered, which the source reads as \<open>0\<close>).
\<close>

record Tooltip =
  tt_open :: bool
  tt_x :: real
  tt_y :: real
  tt_state :: "StateIntake option"

record MouseEvent =
  clientX :: real
  clientY :: real

record ClientRect =
  rect_left :: real
  rect_top :: real
  rect_width :: real
  rect_height :: real

record TooltipEl =
  offsetWidth :: real
  offsetHeight :: real

definition handleMouseMove ::
    "MouseEvent \<Rightarrow> ClientRect option \<Rightarrow> TooltipEl option \<Rightarrow> Tooltip \<Rightarrow> Tooltip" where
  "handleMouseMove evt mapRoot tooltipEl tooltip =
     (if \<not> tt_open tooltip then tooltip
      else (case mapRoot of
              None \<Rightarrow> tooltip
            | Some rect \<Rightarrow>
                let offset = 6;
                    rawX = clientX evt - rect_left rect + offset;
                    rawY = clientY evt - rect_top rect + offset;
                    w = (case tooltipEl of Some e \<Rightarrow> offsetWidth e | None \<Rightarrow> 0);
                    h = (case tooltipEl of Some e \<Rightarrow> offsetHeight e | None \<Rightarrow> 0);
                    maxX = max 0 (rect_width rect - w - 4);
                    maxY = max 0 (rect_height rect - h - 4)
                in tooltip\<lparr>tt_x := max 4 (min rawX maxX), tt_y := max 4 (min rawY maxY)\<rparr>))"

section \<open>The map load protocol\<close>

definition US_SVG_URL :: string where
  "US_SVG_URL = ''https://simplemaps.com/static/demos/resources/svg-library/svgs/us.svg''"

definition US_SVG_CACHE_KEY :: string where
  "US_SVG_CACHE_KEY = ''lawyer-us-map-svg-cache-v1''"

text \<open>
  What \<open>fetch\<close> and \<open>res.text()\<close> give: the request rejects, or a response arrives with
  its \<open>ok\<close> flag and its body (\<open>None\<close> when reading the body rejects).
\<close>

datatype FetchOutcome = FetchRejected | FetchResponse bool "string option"

text \<open>
  The state the mount handler works on: whether the map root is mounted, its
  \<open>innerHTML\<close>, and the local storage. Whether \<open>setItem\<close> and \<open>getItem\<close> throw is decided
  by the browser and is a parameter. \<open>bindSvgEvents\<close> and \<open>applyMapColors\<close>, called after
  the injection, work on the parsed document and are not part of this model.
\<close>

record MapLoad =
  mounted :: bool
  innerHTML :: string
  localStorage :: "string \<rightharpoonup> string"

definition run ::
    "(string \<Rightarrow> FetchOutcome) \<Rightarrow> bool \<Rightarrow> bool \<Rightarrow> string \<Rightarrow> MapLoad \<Rightarrow> MapLoad" where
  "run fetch setItem_throws getItem_throws usSvgFallbackRaw m =
     (if \<not> mounted m then m
      else (case fetch US_SVG_URL of
              FetchResponse True (Some svgText) \<Rightarrow>
                let m1 = (if setItem_throws then m
                          else m\<lparr>localStorage := (localStorage m)(US_SVG_CACHE_KEY \<mapsto> svgText)\<rparr>)
                in m1\<lparr>innerHTML := svgText\<rparr>
            | _ \<Rightarrow>
                let cached = (if getItem_throws then None
                              else localStorage m US_SVG_CACHE_KEY)
                in m\<lparr>innerHTML := (case cached of
                                       None \<Rightarrow> usSvgFallbackRaw
                                     | Some c \<Rightarrow> if c \<noteq> [] then c else usSvgFallbackRaw)\<rparr>))"

section \<open>The profile draft and the settings tabs\<close>

text \<open>
  A profile record is a JavaScript object: a list of fields with their values. The
  remote table holds one record per owner.
\<close>

type_synonym 'v Profile = "(string \<times> 'v) list"

type_synonym 'v Backend = "string \<rightharpoonup> 'v Profile"

record 'v AttorneyProfile =
  baseline :: "'v Profile"
  draft :: "'v Profile"
  isEditing :: bool

datatype CommitError = NotEditing | UpdateFailed

text \<open>Modelled from the spec: the composable \<open>useAttorneyProfile\<close> that the settings
  tabs import is not among the sources. \<open>isDirty\<close> is true iff any field in the draft
  differs from the baseline.\<close>

definition isDirty :: "'v AttorneyProfile \<Rightarrow> bool" where
  "isDirty ap =
     list_ex (\<lambda>k. map_of (draft ap) k \<noteq> map_of (baseline ap) k)
       (map fst (draft ap) @ map fst (baseline ap))"

text \<open>Modelled from the spec: \<open>cancelEditing\<close> of the absent composable returns to idle
  with the draft reset to the last-loaded baseline.\<close>

definition cancelEditing :: "'v AttorneyProfile \<Rightarrow> 'v AttorneyProfile" where
  "cancelEditing ap = ap\<lparr>draft := baseline ap, isEditing := False\<rparr>"

text \<open>Modelled from the spec: the partial update of the absent composable writes, of the
  named fields, those the draft holds, into a record.\<close>

definition persistFields :: "'v Profile \<Rightarrow> string list \<Rightarrow> 'v Profile \<Rightarrow> 'v Profile" where
  "persistFields d fieldList r =
     foldl (\<lambda>r k. case map_of d k of None \<Rightarrow> r | Some v \<Rightarrow> AList.update k v r) r fieldList"

text \<open>Modelled from the spec: \<open>commitEditing\<close> of the absent composable is valid only
  while editing and persists only the named fields of the draft to the owner's remote
  record. On success the baseline adopts the persisted values and the state returns to
  idle; on failure the state stays editing with the draft unchanged and the error goes
  to the caller. Whether the remote update succeeds is the parameter \<open>ok\<close>; a call
  outside the editing state fails without effect.\<close>

definition commitEditing ::
    "bool \<Rightarrow> string \<Rightarrow> string list \<Rightarrow> 'v AttorneyProfile \<times> 'v Backend
      \<Rightarrow> (CommitError + unit) \<times> 'v AttorneyProfile \<times> 'v Backend" where
  "commitEditing ok ownerId fieldList s =
     (case s of (ap, db) \<Rightarrow>
        if \<not> isEditing ap then (Inl NotEditing, ap, db)
        else if \<not> ok then (Inl UpdateFailed, ap, db)
        else
          let r = (case db ownerId of None \<Rightarrow> [] | Some r \<Rightarrow> r)
          in (Inr (),
              ap\<lparr>baseline := persistFields (draft ap) fieldList (baseline ap),
                  isEditing := False\<rparr>,
              db(ownerId \<mapsto> persistFields (draft ap) fieldList r)))"

text \<open>The two settings tabs among the sources and the field list each passes to
  \<open>commitEditing\<close>.\<close>

datatype Tab = ExpertiseTab | CapacityTab

fun tabFields :: "Tab \<Rightarrow> string list" where
  "tabFields ExpertiseTab =
     [''licensedStates'', ''primaryCity'', ''countiesCovered'', ''federalCourts'',
      ''primaryPracticeFocus'', ''injuryCategories'', ''exclusionaryCriteria'',
      ''minimumCaseValue'']"
| "tabFields CapacityTab =
     [''availabilityStatus'', ''firmSize'', ''caseManagementSoftware'',
      ''insuranceCarriers'', ''litigationStyle'', ''largestSettlement'', ''avgTimeToClose'']"

datatype Toast = SuccessToast | ErrorToast

text \<open>\<open>onSubmit\<close> of a tab: nothing happens without a user id; otherwise the tab's fields
  are committed and a toast reports the outcome. The \<open>saving\<close> flag, raised for the
  duration of the call, is left out.\<close>

definition onSubmit ::
    "Tab \<Rightarrow> bool \<Rightarrow> string \<Rightarrow> 'v AttorneyProfile \<times> 'v Backend
      \<Rightarrow> Toast option \<times> 'v AttorneyProfile \<times> 'v Backend" where
  "onSubmit tab ok userId s =
     (if userId = [] then (None, s)
      else (case commitEditing ok userId (tabFields tab) s of
              (Inr u, s') \<Rightarrow> (Some SuccessToast, s')
            | (Inl e, s') \<Rightarrow> (Some ErrorToast, s')))"

text \<open>
  \<open>onMounted\<close> of a tab, the same in both: \<open>userId\<close> is the id of the user once
  \<open>auth.init()\<close> is done, empty when there is none. \<open>loadProfile\<close> belongs to the absent
  composable and is a parameter: nothing is assumed of what it does to the draft.
\<close>

definition onMounted ::
    "(string \<Rightarrow> 'v AttorneyProfile \<Rightarrow> 'v AttorneyProfile) \<Rightarrow> string
      \<Rightarrow> 'v AttorneyProfile \<Rightarrow> 'v AttorneyProfile" where
  "onMounted loadProfile userId ap =
     (let ap1 = (if userId \<noteq> [] then loadProfile userId ap else ap)
      in if isEditing ap1 \<and> \<not> isDirty ap1 then cancelEditing ap1 else ap1)"

section \<open>Notions used to state the properties\<close>

text \<open>Whether a shape with code \<open>c\<close> is visible under the current filter: the filter is
  \<open>all\<close>, or the region with that code has the status the filter selects.\<close>

definition shapeVisible :: "Page \<Rightarrow> jsstring \<Rightarrow> bool" where
  "shapeVisible st c =
     (case selectedStatus st of
        All \<Rightarrow> True
      | Only f \<Rightarrow> (case find (\<lambda>s. code s = c) (mockStates st) of
                    None \<Rightarrow> False
                  | Some s \<Rightarrow> status s = f))"

text \<open>The shapes that get a label: those with a code and a bounding box that are shown
  under the filter, which is the case if the filter is \<open>all\<close> or some region with that
  code has the selected status.\<close>

definition labelled :: "Page \<Rightarrow> SvgPath \<Rightarrow> bool" where
  "labelled st p =
     (case shapeCode p of
        None \<Rightarrow> False
      | Some c \<Rightarrow>
          bbox p \<noteq> None \<and>
          (selectedStatus st = All \<or>
           (\<exists>s \<in> set (mockStates st). code s = c \<and> selectedStatus st = Only (status s))))"

text \<open>The label of a labelled shape: its code, at the centre of its bounding box, with
  a third of the smaller side as font size, but at least \<open>6\<close>.\<close>

definition labelOf :: "SvgPath \<Rightarrow> SvgLabel" where
  "labelOf p =
     (let b = the (bbox p)
      in \<lparr>textContent = the (shapeCode p),
          label_x = box_x b + box_width b / 2,
          label_y = box_y b + box_height b / 2,
          font_size = max 6 (min (box_width b) (box_height b) / 3)\<rparr>)"

text \<open>The value the backend holds for a field of an owner's record.\<close>

definition persisted :: "'v Backend \<Rightarrow> string \<Rightarrow> string \<Rightarrow> 'v option" where
  "persisted db ownerId k = (case db ownerId of None \<Rightarrow> None | Some r \<Rightarrow> map_of r k)"

section \<open>Example inputs\<close>

text \<open>The upper-case mapping on ASCII, where it turns the letters \<open>a\<close> to \<open>z\<close> into
  \<open>A\<close> to \<open>Z\<close> and keeps every other character: the part of the table the examples
  use.\<close>

definition exampleUpperMap :: "nat \<Rightarrow> nat list" where
  "exampleUpperMap cp = (if 0x61 \<le> cp \<and> cp \<le> 0x7A then [cp - 0x20] else [cp])"

text \<open>Two regions of the page's initial list, an order form selecting California with
  untrimmed lower-case input, and a page holding them.\<close>

definition exampleCA :: StateIntake where
  "exampleCA = \<lparr>code = ascii ''CA'', name = ''California'', currentVolume = Finite 45,
     targetVolume = Finite 50, salesNext30Days = Finite 5, status = Active,
     fulfilled = Finite 40, pending = Finite 5\<rparr>"

definition exampleFL :: StateIntake where
  "exampleFL = \<lparr>code = ascii ''FL'', name = ''Florida'', currentVolume = Finite 22,
     targetVolume = Finite 30, salesNext30Days = Finite 3, status = Low,
     fulfilled = Finite 20, pending = Finite 2\<rparr>"

definition exampleForm :: "jsnum \<Rightarrow> jsnum \<Rightarrow> jsnum \<Rightarrow> OrderForm" where
  "exampleForm vol fc ds =
     \<lparr>form_stateCode = ascii '' ca'', form_volume = vol, form_salesForecast = fc, form_days = ds\<rparr>"

definition examplePage :: "OrderForm \<Rightarrow> Page" where
  "examplePage f = \<lparr>orders = [], mockStates = [exampleFL, exampleCA], createOrderOpen = True,
     orderForm = f, selectedStatus = All, svg = None\<rparr>"

text \<open>A map document with three shapes, one without a bounding box and one (\<open>DC\<close>) with
  no region, and a stale label group; a page showing it under a given filter.\<close>

definition exampleBox :: DOMRect where
  "exampleBox = \<lparr>box_x = 10, box_y = 20, box_width = 60, box_height = 30\<rparr>"

definition examplePath :: "jsstring \<Rightarrow> DOMRect option \<Rightarrow> SvgPath" where
  "examplePath c b = \<lparr>data_id = c, id_attr = None, bbox = b, fill = ''#d3d3d3'',
     stroke = ''#ffffff'', stroke_width = ''1'', cursor = ''auto'', opacity = 1\<rparr>"

definition exampleDoc :: SvgDoc where
  "exampleDoc = \<lparr>paths = [examplePath (ascii ''CA'') (Some exampleBox),
       examplePath (ascii ''FL'') None, examplePath (ascii ''DC'') (Some exampleBox)],
     labels = Some [\<lparr>textContent = ascii ''TX'', label_x = 0, label_y = 0, font_size = 6\<rparr>]\<rparr>"

definition exampleMap :: "StatusFilter \<Rightarrow> Page" where
  "exampleMap f = \<lparr>orders = [], mockStates = [exampleFL, exampleCA], createOrderOpen = False,
     orderForm = exampleForm (Finite 1) (Finite 5) (Finite 30), selectedStatus = f,
     svg = Some exampleDoc\<rparr>"

text \<open>An open tooltip, a map root of 300 by 200 at (100, 50), a pointer near its right
  edge, and a tooltip element of a given size.\<close>

definition exampleTooltip :: Tooltip where
  "exampleTooltip = \<lparr>tt_open = True, tt_x = 0, tt_y = 0, tt_state = None\<rparr>"

definition exampleRect :: ClientRect where
  "exampleRect = \<lparr>rect_left = 100, rect_top = 50, rect_width = 300, rect_height = 200\<rparr>"

definition exampleEvent :: MouseEvent where
  "exampleEvent = \<lparr>clientX = 390, clientY = 60\<rparr>"

definition tooltipSize :: "real \<Rightarrow> real \<Rightarrow> TooltipEl" where
  "tooltipSize w h = \<lparr>offsetWidth = w, offsetHeight = h\<rparr>"

text \<open>A network that answers the map URL with a given outcome, and a mounted map root
  with a given cache content.\<close>

definition exampleFetch :: "FetchOutcome \<Rightarrow> string \<Rightarrow> FetchOutcome" where
  "exampleFetch r url = (if url = US_SVG_URL then r else FetchRejected)"

definition exampleLoad :: "string option \<Rightarrow> MapLoad" where
  "exampleLoad c = \<lparr>mounted = True, innerHTML = [],
     localStorage = (case c of None \<Rightarrow> Map.empty | Some t \<Rightarrow> [US_SVG_CACHE_KEY \<mapsto> t])\<rparr>"

text \<open>A persisted profile record, a draft that changes a field of each tab, a profile in
  the editing state, a backend holding the record, and a loader that leaves the draft
  state as it is.\<close>

definition exampleRecord :: "string Profile" where
  "exampleRecord = [(''primaryCity'', ''Austin''), (''firmSize'', ''solo'')]"

definition exampleDraft :: "string Profile" where
  "exampleDraft = [(''primaryCity'', ''Dallas''), (''firmSize'', ''large'')]"

definition exampleProfile :: "string Profile \<Rightarrow> string AttorneyProfile" where
  "exampleProfile d = \<lparr>baseline = exampleRecord, draft = d, isEditing = True\<rparr>"

definition exampleBackend :: "string Backend" where
  "exampleBackend = [''user-1'' \<mapsto> exampleRecord]"

definition exampleLoadProfile :: "string \<Rightarrow> string AttorneyProfile \<Rightarrow> string AttorneyProfile" where
  "exampleLoadProfile ownerId ap = ap"

lemmas example_defs = examplePage_def exampleForm_def exampleCA_def exampleFL_def ascii_def

lemmas map_defs = exampleMap_def exampleDoc_def examplePath_def exampleBox_def exampleCA_def
  exampleFL_def ascii_def

lemmas tip_defs = exampleTooltip_def exampleRect_def exampleEvent_def tooltipSize_def

lemmas profile_defs = exampleRecord_def exampleDraft_def exampleProfile_def exampleBackend_def

lemmas string_defs = toUpperCase_def trim_def isWhiteSpace_def CodePointToString_def
  exampleUpperMap_def isLeadingSurrogate_def isTrailingSurrogate_def ascii_def

section \<open>Order submission: properties\<close>

lemma example_code: "toUpperCase exampleUpperMap (trim (ascii '' ca'')) = ascii ''CA''"
  by (simp add: string_defs)

lemma blank_code: "trim (ascii ''  '') = []"
  by (simp add: string_defs)

text \<open>A code of a no-break space and an ideographic space is empty after trimming.\<close>

lemma nbsp_code: "trim [0xA0, 0x3000] = []"
  by (simp add: string_defs)

lemma findIndex_less: "findIndex P xs = Some i \<Longrightarrow> i < length xs"
  by (induction xs arbitrary: i) (auto split: if_splits)

lemma applyStateLabels_frame:
  "orders (applyStateLabels st) = orders st"
  "mockStates (applyStateLabels st) = mockStates st"
  "createOrderOpen (applyStateLabels st) = createOrderOpen st"
  "orderForm (applyStateLabels st) = orderForm st"
  "selectedStatus (applyStateLabels st) = selectedStatus st"
  by (simp_all add: applyStateLabels_def split: option.splits)

lemma applyMapColors_frame:
  "orders (applyMapColors st) = orders st"
  "mockStates (applyMapColors st) = mockStates st"
  "createOrderOpen (applyMapColors st) = createOrderOpen st"
  "orderForm (applyMapColors st) = orderForm st"
  "selectedStatus (applyMapColors st) = selectedStatus st"
  by (simp_all add: applyMapColors_def applyStateLabels_frame split: option.splits)

text \<open>An accepted submission changes the region list at the first region whose code is
  the normalised code, and nowhere else.\<close>

lemma createOrder_mockStates:
  assumes "accepted upperMap (orderForm st)"
  shows "mockStates (createOrder upperMap rnd now st) =
     (case findIndex (\<lambda>s. code s = toUpperCase upperMap (trim (form_stateCode (orderForm st))))
             (mockStates st) of
        None \<Rightarrow> mockStates st
      | Some idx \<Rightarrow> (mockStates st)[idx := bumpState (form_volume (orderForm st))
           (form_salesForecast (orderForm st)) (form_days (orderForm st)) (mockStates st ! idx)])"
  using assms
  by (simp add: createOrder_def accepted_def Let_def applyMapColors_frame resetOrderForm_def
      split: option.splits)

text \<open>An accepted submission puts one new order in front of the order list.\<close>

lemma createOrder_orders:
  assumes "accepted upperMap (orderForm st)"
  shows "orders (createOrder upperMap rnd now st) =
     \<lparr>order_id = ''O-'' @ rnd, stateCode = toUpperCase upperMap (trim (form_stateCode (orderForm st))),
      volume = Math_round (form_volume (orderForm st)),
      salesForecast = Math_round (form_salesForecast (orderForm st)),
      days = Math_round (form_days (orderForm st)), createdAt = now\<rparr> # orders st"
  using assms
  by (simp add: createOrder_def accepted_def Let_def applyMapColors_frame resetOrderForm_def
      split: option.splits)

lemma bumpState_status:
  "status (bumpState vol fc ds s) =
     (if js_ge (currentVolume (bumpState vol fc ds s)) (targetVolume (bumpState vol fc ds s))
      then Active else Low)"
  by (simp add: bumpState_def Let_def)

text \<open>
  C1. Take a region with \<open>currentVolume = 45\<close>, \<open>targetVolume = 50\<close>, \<open>pending = 5\<close> and
  \<open>salesNext30Days = 5\<close>, and a form with \<open>volume = 5\<close>, \<open>days = 30\<close>,
  \<open>salesForecast = 2\<close> whose region code, trimmed and upper-cased, is a non-empty code
  that the lookup of \<open>createOrder\<close> resolves to that region. After \<open>createOrder\<close> the
  region has \<open>currentVolume = 50\<close>, \<open>pending = 10\<close>, \<open>salesNext30Days = 7\<close> and status
  \<open>active\<close>; its other fields are as before.
\<close>

theorem createOrder_example:
  assumes form: "form_volume (orderForm st) = Finite 5" "form_days (orderForm st) = Finite 30"
      "form_salesForecast (orderForm st) = Finite 2"
    and sc: "toUpperCase upperMap (trim (form_stateCode (orderForm st))) = sc" "sc \<noteq> []"
    and idx: "findIndex (\<lambda>s. code s = sc) (mockStates st) = Some i"
    and region: "currentVolume (mockStates st ! i) = Finite 45"
      "targetVolume (mockStates st ! i) = Finite 50"
      "pending (mockStates st ! i) = Finite 5"
      "salesNext30Days (mockStates st ! i) = Finite 5"
  shows "mockStates (createOrder upperMap rnd now st) ! i =
           (mockStates st ! i)\<lparr>currentVolume := Finite 50, salesNext30Days := Finite 7,
                                status := Active, pending := Finite 10\<rparr>"
proof -
  have acc: "accepted upperMap (orderForm st)"
    using form sc by (simp add: accepted_def)
  have i: "i < length (mockStates st)"
    using idx by (rule findIndex_less)
  show ?thesis
    using i idx sc region form
    by (simp add: createOrder_mockStates [OF acc] bumpState_def Let_def js_ge_def)
qed

theorem createOrder_example_witness:
  "mockStates (createOrder exampleUpperMap ''1A2B3C4D'' ''2024-01-15T09:30:00.000Z''
       (examplePage (exampleForm (Finite 5) (Finite 2) (Finite 30)))) ! 1 =
     exampleCA\<lparr>currentVolume := Finite 50, salesNext30Days := Finite 7,
                status := Active, pending := Finite 10\<rparr>"
  using createOrder_example [where st = "examplePage (exampleForm (Finite 5) (Finite 2) (Finite 30))"
      and upperMap = exampleUpperMap and sc = "ascii ''CA''" and i = 1
      and rnd = "''1A2B3C4D''" and now = "''2024-01-15T09:30:00.000Z''"]
  by (simp add: example_defs string_defs)

text \<open>
  C2. If the region code is empty after trimming, or the volume is not finite or is
  \<open>\<le> 0\<close>, or the sales forecast is not finite or is \<open>< 0\<close>, or the days window is not
  finite or is \<open>\<le> 0\<close>, then \<open>createOrder\<close> returns the page as it was: the order list,
  every region, the open flag of the creation form and the form's input are unchanged.
\<close>

theorem createOrder_invalid_noop:
  assumes "trim (form_stateCode (orderForm st)) = []
     \<or> \<not> isFinite (form_volume (orderForm st)) \<or> js_le (form_volume (orderForm st)) (Finite 0)
     \<or> \<not> isFinite (form_salesForecast (orderForm st))
     \<or> js_lt (form_salesForecast (orderForm st)) (Finite 0)
     \<or> \<not> isFinite (form_days (orderForm st)) \<or> js_le (form_days (orderForm st)) (Finite 0)"
  shows "createOrder upperMap rnd now st = st"
  using assms by (auto simp add: createOrder_def Let_def toUpperCase_def)

theorem createOrder_invalid_noop_witness:
  "createOrder exampleUpperMap ''1A2B3C4D'' ''2024-01-15T09:30:00.000Z''
       (examplePage (exampleForm (Finite 0) (Finite 2) (Finite 30))) =
     examplePage (exampleForm (Finite 0) (Finite 2) (Finite 30))
   \<and> createOrder exampleUpperMap ''1A2B3C4D'' ''2024-01-15T09:30:00.000Z''
       (examplePage (exampleForm NaN (Finite 2) (Finite 30))) =
     examplePage (exampleForm NaN (Finite 2) (Finite 30))
   \<and> createOrder exampleUpperMap ''1A2B3C4D'' ''2024-01-15T09:30:00.000Z''
       (examplePage \<lparr>form_stateCode = [0xA0, 0x3000], form_volume = Finite 5,
                      form_salesForecast = Finite 2, form_days = Finite 30\<rparr>) =
     examplePage \<lparr>form_stateCode = [0xA0, 0x3000], form_volume = Finite 5,
                      form_salesForecast = Finite 2, form_days = Finite 30\<rparr>"
proof -
  have a: "js_le (form_volume (orderForm (examplePage (exampleForm (Finite 0) (Finite 2) (Finite 30)))))
             (Finite 0)"
    by (simp add: example_defs)
  have b: "\<not> isFinite (form_volume (orderForm (examplePage (exampleForm NaN (Finite 2) (Finite 30)))))"
    by (simp add: example_defs)
  have c: "trim (form_stateCode (orderForm (examplePage \<lparr>form_stateCode = [0xA0, 0x3000],
             form_volume = Finite 5, form_salesForecast = Finite 2, form_days = Finite 30\<rparr>))) = []"
    by (simp add: examplePage_def nbsp_code)
  show ?thesis
    using a b c by (intro conjI createOrder_invalid_noop) blast+
qed

text \<open>
  C3. The order that \<open>createOrder\<close> creates is to hold a positive integer as its volume.
  The code does not ensure it: the guard \<open>volume <= 0\<close> tests the submitted number and
  the order stores \<open>Math.round\<close> of it, so every accepted submission whose volume is
  below \<open>1/2\<close>, such as \<open>0.4\<close>, creates an order of volume \<open>0\<close>, which is not positive.
\<close>

theorem createOrder_volume_zero:
  assumes acc: "accepted upperMap (orderForm st)"
    and v: "form_volume (orderForm st) = Finite v" "v < 1 / 2"
  shows "volume (hd (orders (createOrder upperMap rnd now st))) = Finite 0
       \<and> \<not> js_lt (Finite 0) (volume (hd (orders (createOrder upperMap rnd now st))))"
proof -
  from acc v(1) have "0 < v"
    by (simp add: accepted_def)
  with v(2) have "\<lfloor>v + 1 / 2\<rfloor> = 0"
    by linarith
  then show ?thesis
    using v(1) by (simp add: createOrder_orders [OF acc])
qed

theorem createOrder_volume_zero_witness:
  "accepted exampleUpperMap (exampleForm (Finite (2 / 5)) (Finite 2) (Finite 30))
   \<and> volume (hd (orders (createOrder exampleUpperMap ''1A2B3C4D'' ''2024-01-15T09:30:00.000Z''
        (examplePage (exampleForm (Finite (2 / 5)) (Finite 2) (Finite 30)))))) = Finite 0"
proof -
  let ?st = "examplePage (exampleForm (Finite (2 / 5)) (Finite 2) (Finite 30))"
  have f: "orderForm ?st = exampleForm (Finite (2 / 5)) (Finite 2) (Finite 30)"
    by (simp add: examplePage_def)
  have acc: "accepted exampleUpperMap (orderForm ?st)"
    by (simp add: accepted_def example_defs string_defs)
  have v: "form_volume (orderForm ?st) = Finite (2 / 5)"
    by (simp add: example_defs)
  from createOrder_volume_zero [OF acc v, of "''1A2B3C4D''" "''2024-01-15T09:30:00.000Z''"]
  show ?thesis
    using acc unfolding f by simp
qed

text \<open>
  C4. After an accepted submission whose code resolves to a region, that region's status
  is \<open>active\<close> if its current volume is \<open>\<ge>\<close> its target volume and \<open>low\<close> otherwise; it
  is never \<open>inactive\<close>. Every other region is left as it was.
\<close>

theorem createOrder_status:
  assumes acc: "accepted upperMap (orderForm st)"
    and idx: "findIndex (\<lambda>s. code s = toUpperCase upperMap (trim (form_stateCode (orderForm st))))
                (mockStates st) = Some i"
  shows "status (mockStates (createOrder upperMap rnd now st) ! i) =
           (if js_ge (currentVolume (mockStates (createOrder upperMap rnd now st) ! i))
                     (targetVolume (mockStates (createOrder upperMap rnd now st) ! i))
            then Active else Low)
       \<and> status (mockStates (createOrder upperMap rnd now st) ! i) \<noteq> Inactive
       \<and> (\<forall>j. j \<noteq> i \<longrightarrow> mockStates (createOrder upperMap rnd now st) ! j = mockStates st ! j)"
proof -
  have i: "i < length (mockStates st)"
    using idx by (rule findIndex_less)
  have eq: "mockStates (createOrder upperMap rnd now st) ! i =
      bumpState (form_volume (orderForm st)) (form_salesForecast (orderForm st))
        (form_days (orderForm st)) (mockStates st ! i)"
    using i idx by (simp add: createOrder_mockStates [OF acc])
  have others: "\<forall>j. j \<noteq> i \<longrightarrow> mockStates (createOrder upperMap rnd now st) ! j = mockStates st ! j"
    using idx by (simp add: createOrder_mockStates [OF acc])
  show ?thesis
    unfolding eq using others bumpState_status [of "form_volume (orderForm st)"] by simp
qed

theorem createOrder_status_witness:
  "status (mockStates (createOrder exampleUpperMap ''1A2B3C4D'' ''2024-01-15T09:30:00.000Z''
       (examplePage (exampleForm (Finite 3) (Finite 2) (Finite 7)))) ! 1) = Low
   \<and> currentVolume (mockStates (createOrder exampleUpperMap ''1A2B3C4D'' ''2024-01-15T09:30:00.000Z''
       (examplePage (exampleForm (Finite 3) (Finite 2) (Finite 7)))) ! 1) = Finite 48
   \<and> mockStates (createOrder exampleUpperMap ''1A2B3C4D'' ''2024-01-15T09:30:00.000Z''
       (examplePage (exampleForm (Finite 3) (Finite 2) (Finite 7)))) ! 0 = exampleFL"
proof -
  let ?st = "examplePage (exampleForm (Finite 3) (Finite 2) (Finite 7))"
  have acc: "accepted exampleUpperMap (orderForm ?st)"
    by (simp add: accepted_def example_defs string_defs)
  have idx: "findIndex (\<lambda>s. code s = toUpperCase exampleUpperMap (trim (form_stateCode (orderForm ?st))))
                (mockStates ?st) = Some 1"
    by (simp add: example_defs string_defs)
  have cv: "currentVolume (mockStates (createOrder exampleUpperMap ''1A2B3C4D'' ''2024-01-15T09:30:00.000Z'' ?st) ! 1)
      = Finite 48"
    using idx by (simp add: createOrder_mockStates [OF acc] bumpState_def Let_def)
       (simp add: example_defs)
  have tv: "targetVolume (mockStates (createOrder exampleUpperMap ''1A2B3C4D'' ''2024-01-15T09:30:00.000Z'' ?st) ! 1)
      = Finite 50"
    using idx by (simp add: createOrder_mockStates [OF acc] bumpState_def Let_def)
       (simp add: example_defs)
  have fl: "mockStates ?st ! 0 = exampleFL"
    by (simp add: example_defs)
  note t = createOrder_status [OF acc idx, of "''1A2B3C4D''" "''2024-01-15T09:30:00.000Z''"]
  have low: "status (mockStates (createOrder exampleUpperMap ''1A2B3C4D'' ''2024-01-15T09:30:00.000Z'' ?st) ! 1) = Low"
    using t unfolding cv tv by (simp add: js_ge_def)
  have "mockStates (createOrder exampleUpperMap ''1A2B3C4D'' ''2024-01-15T09:30:00.000Z'' ?st) ! 0 = mockStates ?st ! 0"
    using t by simp
  then show ?thesis
    using low cv fl by simp
qed

text \<open>The region codes never change: an order keeps the code of the region it updates,
  so codes that are unique stay unique.\<close>

lemma createOrder_rejected:
  "\<not> accepted upperMap (orderForm st) \<Longrightarrow> createOrder upperMap rnd now st = st"
  by (auto simp add: createOrder_def accepted_def Let_def)

lemma createOrder_codes:
  "map code (mockStates (createOrder upperMap rnd now st)) = map code (mockStates st)"
proof (cases "accepted upperMap (orderForm st)")
  case True
  show ?thesis
  proof (cases "findIndex (\<lambda>s. code s = toUpperCase upperMap (trim (form_stateCode (orderForm st))))
                  (mockStates st)")
    case None
    then show ?thesis by (simp add: createOrder_mockStates [OF True])
  next
    case (Some i)
    then have "i < length (mockStates st)" by (rule findIndex_less)
    then have "(map code (mockStates st))[i := code (mockStates st ! i)] = map code (mockStates st)"
      by (simp add: list_update_same_conv)
    then show ?thesis
      using Some by (simp add: createOrder_mockStates [OF True] map_update bumpState_def Let_def)
  qed
next
  case False
  then show ?thesis by (simp add: createOrder_rejected)
qed

section \<open>Coloring pass: properties\<close>

lemma foldl_set_other:
  "c \<notin> code ` set xs \<Longrightarrow> foldl (\<lambda>m s. m(code s \<mapsto> s)) m xs c = m c"
  by (induction xs arbitrary: m) auto

lemma foldl_set_find:
  "distinct (map code xs) \<Longrightarrow>
   foldl (\<lambda>m s. m(code s \<mapsto> s)) m xs c =
     (case find (\<lambda>s. code s = c) xs of Some s \<Rightarrow> Some s | None \<Rightarrow> m c)"
proof (induction xs arbitrary: m)
  case Nil
  then show ?case by simp
next
  case (Cons x xs)
  show ?case
  proof (cases "code x = c")
    case True
    with Cons.prems have "c \<notin> code ` set xs" by auto
    then have "foldl (\<lambda>m s. m(code s \<mapsto> s)) (m(code x \<mapsto> x)) xs c = (m(code x \<mapsto> x)) c"
      by (rule foldl_set_other)
    then show ?thesis using True by (simp del: fun_upd_apply add: fun_upd_same)
  next
    case False
    with Cons show ?thesis by simp
  qed
qed

text \<open>With unique codes the lookup table gives the region of a code.\<close>

lemma stateByCode_find:
  "distinct (map code (mockStates st)) \<Longrightarrow>
   stateByCode st c = find (\<lambda>s. code s = c) (mockStates st)"
  by (simp add: stateByCode_def foldl_set_find split: option.splits)

lemma find_unique:
  assumes "distinct (map code xs)" and "find (\<lambda>s. code s = c) xs = Some s"
  shows "(\<exists>s' \<in> set xs. code s' = c \<and> P s') \<longleftrightarrow> P s"
proof -
  from assms(2) have s: "s \<in> set xs" "code s = c"
    by (auto simp add: find_Some_iff)
  from assms(1) have "inj_on code (set xs)"
    by (simp add: distinct_map)
  with s have "\<And>s'. s' \<in> set xs \<Longrightarrow> code s' = c \<Longrightarrow> s' = s"
    by (auto dest: inj_onD)
  with s show ?thesis by blast
qed

lemma find_absent:
  "find (\<lambda>s. code s = c) xs = None \<Longrightarrow> \<not> (\<exists>s' \<in> set xs. code s' = c \<and> P s')"
  by (auto simp add: find_None_iff)

lemma visibleSet_iff:
  "c \<in> code ` set (filteredStates st) \<longleftrightarrow>
     (case selectedStatus st of
        All \<Rightarrow> \<exists>s \<in> set (mockStates st). code s = c
      | Only f \<Rightarrow> \<exists>s \<in> set (mockStates st). code s = c \<and> status s = f)"
  by (auto simp add: filteredStates_def split: StatusFilter.splits)

lemma colorPath_distinct:
  assumes uniq: "distinct (map code (mockStates st))" and c: "shapeCode p = Some c"
  shows "fill (colorPath st p) =
           (case find (\<lambda>s. code s = c) (mockStates st) of
              Some s \<Rightarrow> if shapeVisible st c then getStatusColor (status s) else ''#e5e7eb''
            | None \<Rightarrow> ''#e5e7eb'')"
    and "opacity (colorPath st p) = (if shapeVisible st c then 1 else 15 / 100)"
proof -
  have all: "selectedStatus st = All \<Longrightarrow> shapeVisible st c"
    by (simp add: shapeVisible_def)
  have only: "selectedStatus st \<noteq> All \<Longrightarrow>
      c \<in> code ` set (filteredStates st) \<longleftrightarrow> shapeVisible st c"
    unfolding visibleSet_iff shapeVisible_def
    using find_unique [OF uniq, of c] find_absent [of c "mockStates st"]
    by (cases "selectedStatus st"; cases "find (\<lambda>s. code s = c) (mockStates st)") simp_all
  show "fill (colorPath st p) =
           (case find (\<lambda>s. code s = c) (mockStates st) of
              Some s \<Rightarrow> if shapeVisible st c then getStatusColor (status s) else ''#e5e7eb''
            | None \<Rightarrow> ''#e5e7eb'')"
    by (simp add: colorPath_def c Let_def stateByCode_find [OF uniq] all only
        split: option.splits)
  show "opacity (colorPath st p) = (if shapeVisible st c then 1 else 15 / 100)"
    by (simp add: colorPath_def c Let_def all only)
qed

lemma applyMapColors_paths:
  assumes "svg st = Some d"
  shows "\<exists>d'. svg (applyMapColors st) = Some d' \<and> paths d' = map (colorPath st) (paths d)"
  using assms by (simp add: applyMapColors_def applyStateLabels_def)

text \<open>
  C5. Let the region codes be unique. For every status filter and every shape of the
  document that carries a region code, after the coloring pass the shape's fill is the
  color of its region's status (\<open>active\<close>: green \<open>#22c55e\<close>, \<open>low\<close>: amber \<open>#eab308\<close>,
  \<open>inactive\<close>: red \<open>#ef4444\<close>) if the code is that of a known region and the shape is
  visible, that is the filter is \<open>all\<close> or the region's status is the filter's; otherwise
  the fill is the gray \<open>#e5e7eb\<close>. The opacity is \<open>1\<close> if the shape is visible and
  \<open>0.15\<close>, strictly between \<open>0\<close> and \<open>1\<close>, if not.
\<close>

theorem applyMapColors_fill_opacity:
  assumes uniq: "distinct (map code (mockStates st))"
    and doc: "svg st = Some d" and i: "i < length (paths d)"
    and c: "shapeCode (paths d ! i) = Some c"
  shows "\<exists>d'. svg (applyMapColors st) = Some d' \<and> length (paths d') = length (paths d) \<and>
     (let p' = paths d' ! i;
          region = find (\<lambda>s. code s = c) (mockStates st);
          visible = (selectedStatus st = All \<or>
                     (\<exists>s. region = Some s \<and> selectedStatus st = Only (status s)))
      in fill p' = (case region of
                      Some s \<Rightarrow> if visible then getStatusColor (status s) else ''#e5e7eb''
                    | None \<Rightarrow> ''#e5e7eb'')
         \<and> opacity p' = (if visible then 1 else 15 / 100)
         \<and> 0 < opacity p' \<and> opacity p' \<le> 1 \<and> (opacity p' < 1 \<longleftrightarrow> \<not> visible))
     \<and> getStatusColor Active = ''#22c55e'' \<and> getStatusColor Low = ''#eab308''
     \<and> getStatusColor Inactive = ''#ef4444''"
proof -
  from applyMapColors_paths [OF doc] obtain d' where
    d': "svg (applyMapColors st) = Some d'" "paths d' = map (colorPath st) (paths d)"
    by blast
  have vis: "shapeVisible st c = (selectedStatus st = All \<or>
       (\<exists>s. find (\<lambda>s. code s = c) (mockStates st) = Some s \<and> selectedStatus st = Only (status s)))"
    by (auto simp add: shapeVisible_def split: StatusFilter.splits option.splits)
  have p': "paths d' ! i = colorPath st (paths d ! i)"
    using i d' by simp
  have len: "length (paths d') = length (paths d)"
    using d' by simp
  have f: "fill (paths d' ! i) =
      (case find (\<lambda>s. code s = c) (mockStates st) of
         Some s \<Rightarrow> if shapeVisible st c then getStatusColor (status s) else ''#e5e7eb''
       | None \<Rightarrow> ''#e5e7eb'')"
    unfolding p' by (rule colorPath_distinct [OF uniq c])
  have o: "opacity (paths d' ! i) = (if shapeVisible st c then 1 else 15 / 100)"
    unfolding p' by (rule colorPath_distinct [OF uniq c])
  show ?thesis
    unfolding Let_def vis [symmetric]
    by (rule exI [of _ d']) (simp add: d'(1) len f o)
qed

theorem applyMapColors_fill_opacity_witness:
  "\<exists>d'. svg (applyMapColors (exampleMap (Only Low))) = Some d' \<and>
      fill (paths d' ! 0) = ''#e5e7eb'' \<and> opacity (paths d' ! 0) = 15 / 100 \<and>
      fill (paths d' ! 1) = ''#eab308'' \<and> opacity (paths d' ! 1) = 1"
proof -
  let ?st = "exampleMap (Only Low)"
  have uniq: "distinct (map code (mockStates ?st))"
    by (simp add: map_defs)
  have doc: "svg ?st = Some exampleDoc"
    by (simp add: exampleMap_def)
  have i0: "0 < length (paths exampleDoc)" and i1: "1 < length (paths exampleDoc)"
    by (simp_all add: exampleDoc_def)
  have c0: "shapeCode (paths exampleDoc ! 0) = Some (ascii ''CA'')"
    and c1: "shapeCode (paths exampleDoc ! 1) = Some (ascii ''FL'')"
    by (simp_all add: exampleDoc_def examplePath_def shapeCode_def ascii_def)
  have r0: "find (\<lambda>s. code s = ascii ''CA'') (mockStates ?st) = Some exampleCA"
    and r1: "find (\<lambda>s. code s = ascii ''FL'') (mockStates ?st) = Some exampleFL"
    by (simp_all add: map_defs)
  have s: "selectedStatus ?st = Only Low" "status exampleCA = Active" "status exampleFL = Low"
    by (simp_all add: map_defs)
  from applyMapColors_fill_opacity [OF uniq doc i0 c0] applyMapColors_fill_opacity [OF uniq doc i1 c1]
  show ?thesis
    by (auto simp add: r0 r1 s Let_def)
qed

section \<open>Labeling pass: properties\<close>

lemma some_filtered:
  "list_ex (\<lambda>s. code s = c) (filteredStates st) \<longleftrightarrow>
     (case selectedStatus st of
        All \<Rightarrow> \<exists>s \<in> set (mockStates st). code s = c
      | Only f \<Rightarrow> \<exists>s \<in> set (mockStates st). code s = c \<and> status s = f)"
  by (auto simp add: filteredStates_def list_ex_iff split: StatusFilter.splits)

text \<open>One step of the loop: a labelled shape adds its label, any other shape adds
  nothing.\<close>

lemma labelPath_step:
  "labelPath st g p = (if labelled st p then g @ [labelOf p] else g)"
proof (cases "selectedStatus st")
  case All
  then show ?thesis
    by (simp add: labelPath_def labelled_def labelOf_def Let_def split: option.splits)
next
  case (Only f)
  then have "\<And>c. list_ex (\<lambda>s. code s = c) (filteredStates st) \<longleftrightarrow>
      (\<exists>s \<in> set (mockStates st). code s = c \<and> selectedStatus st = Only (status s))"
    by (auto simp add: some_filtered)
  with Only show ?thesis
    by (simp add: labelPath_def labelled_def labelOf_def Let_def split: option.splits)
qed

lemma foldl_labelPath:
  "foldl (labelPath st) g ps = g @ map labelOf (filter (labelled st) ps)"
  by (induction ps arbitrary: g) (simp_all add: labelPath_step)

text \<open>
  C6, as amended. Every labeling pass replaces the previous label group by a fresh one
  that holds, in document order, exactly one label for each shape that has a region
  code, whose bounding box computes without error, and that is visible under the current
  filter: the filter is \<open>all\<close>, whether or not the code is that of a known region, or some
  region with that code has the selected status. Each label shows the code, is centred
  at the centre of the bounding box and has font size \<open>max(6, min(width, height) / 3)\<close>.
  A shape whose bounding box cannot be computed gets no label and the pass goes on with
  the other shapes.
\<close>

theorem applyStateLabels_labels:
  assumes "svg st = Some d"
  shows "svg (applyStateLabels st) =
           Some (d\<lparr>labels := Some (map labelOf (filter (labelled st) (paths d)))\<rparr>)"
  using assms by (simp add: applyStateLabels_def foldl_labelPath)

theorem applyStateLabels_labels_witness:
  "svg (applyStateLabels (exampleMap (Only Active))) =
     Some (exampleDoc\<lparr>labels :=
       Some [\<lparr>textContent = ascii ''CA'', label_x = 40, label_y = 35, font_size = 10\<rparr>]\<rparr>)"
proof -
  have doc: "svg (exampleMap (Only Active)) = Some exampleDoc"
    by (simp add: exampleMap_def)
  have "map labelOf (filter (labelled (exampleMap (Only Active))) (paths exampleDoc)) =
      [\<lparr>textContent = ascii ''CA'', label_x = 40, label_y = 35, font_size = 10\<rparr>]"
    by (simp add: map_defs labelled_def labelOf_def shapeCode_def)
  with applyStateLabels_labels [OF doc] show ?thesis
    by simp
qed

text \<open>
  C6 as stated fails under the filter \<open>all\<close>: the shape \<open>DC\<close> has no region in the
  lookup table, and the pass still gives it a label.
\<close>

theorem applyStateLabels_labels_counterexample:
  "stateByCode (exampleMap All) (ascii ''DC'') = None \<and>
   map_option labels (svg (applyStateLabels (exampleMap All))) =
     Some (Some [\<lparr>textContent = ascii ''CA'', label_x = 40, label_y = 35, font_size = 10\<rparr>,
                 \<lparr>textContent = ascii ''DC'', label_x = 40, label_y = 35, font_size = 10\<rparr>])"
  by (simp add: applyStateLabels_def labelPath_def stateByCode_def shapeCode_def map_defs)

section \<open>Tooltip: properties\<close>

lemma handleMouseMove_pos:
  assumes "tt_open t"
  shows "tt_x (handleMouseMove evt (Some rect) (Some e) t) =
           max 4 (min (clientX evt - rect_left rect + 6) (max 0 (rect_width rect - offsetWidth e - 4)))"
    and "tt_y (handleMouseMove evt (Some rect) (Some e) t) =
           max 4 (min (clientY evt - rect_top rect + 6) (max 0 (rect_height rect - offsetHeight e - 4)))"
  using assms by (simp_all add: handleMouseMove_def Let_def)

text \<open>
  C7, as amended. While the tooltip is open and the map root is mounted, for every
  pointer position and every measured tooltip width and height the position the move
  handler computes has \<open>x \<ge> 4\<close> and \<open>y \<ge> 4\<close>. Its right edge stays inside the container,
  \<open>x + tooltipWidth \<le> containerWidth\<close>, exactly when the tooltip and the margin fit,
  \<open>tooltipWidth + 4 \<le> containerWidth\<close>; likewise \<open>y + tooltipHeight \<le> containerHeight\<close>
  exactly when \<open>tooltipHeight + 4 \<le> containerHeight\<close>.
\<close>

theorem handleMouseMove_clamped:
  assumes "tt_open t"
  shows "let t' = handleMouseMove evt (Some rect) (Some e) t in
      4 \<le> tt_x t' \<and> 4 \<le> tt_y t' \<and>
      (tt_x t' + offsetWidth e \<le> rect_width rect \<longleftrightarrow> offsetWidth e + 4 \<le> rect_width rect) \<and>
      (tt_y t' + offsetHeight e \<le> rect_height rect \<longleftrightarrow> offsetHeight e + 4 \<le> rect_height rect)"
  unfolding Let_def handleMouseMove_pos [OF assms]
  by (auto simp add: max_def min_def)

theorem handleMouseMove_clamped_witness:
  "let t' = handleMouseMove exampleEvent (Some exampleRect) (Some (tooltipSize 120 80)) exampleTooltip
   in tt_x t' = 176 \<and> tt_y t' = 16 \<and> tt_x t' + 120 \<le> 300 \<and> tt_y t' + 80 \<le> 200"
proof -
  have o: "tt_open exampleTooltip"
    by (simp add: exampleTooltip_def)
  have x: "tt_x (handleMouseMove exampleEvent (Some exampleRect) (Some (tooltipSize 120 80))
      exampleTooltip) = 176"
    by (simp add: handleMouseMove_pos [OF o]) (simp add: tip_defs)
  have y: "tt_y (handleMouseMove exampleEvent (Some exampleRect) (Some (tooltipSize 120 80))
      exampleTooltip) = 16"
    by (simp add: handleMouseMove_pos [OF o]) (simp add: tip_defs)
  have s: "offsetWidth (tooltipSize 120 80) = 120" "offsetHeight (tooltipSize 120 80) = 80"
      "rect_width exampleRect = 300" "rect_height exampleRect = 200"
    by (simp_all add: tip_defs)
  from handleMouseMove_clamped [OF o, of exampleEvent exampleRect "tooltipSize 120 80"]
  show ?thesis
    unfolding Let_def s x y by simp
qed

text \<open>
  C7 as stated fails for a tooltip wider than its container: with a container of width
  \<open>300\<close> and a tooltip of width \<open>320\<close> the handler puts the tooltip at \<open>x = 4\<close>, and
  \<open>4 + 320 > 300\<close>.
\<close>

theorem handleMouseMove_clamped_counterexample:
  "\<not> (tt_x (handleMouseMove exampleEvent (Some exampleRect) (Some (tooltipSize 320 80))
              exampleTooltip) + offsetWidth (tooltipSize 320 80)
       \<le> rect_width exampleRect)"
  by (simp add: handleMouseMove_def tip_defs)

section \<open>Map load protocol: properties\<close>

text \<open>
  C8. Let the map root be mounted. When the remote fetch fails (the request rejects, the
  response is not a success, or its body cannot be read): if reading the cache works and it holds a stored,
  non-empty document, that document is injected and not the bundled fallback; if the
  cache holds nothing (no entry, or the empty text), the bundled fallback is injected;
  if reading the cache throws, the bundled fallback is injected as for an empty cache;
  the cache itself is not changed. When the fetch succeeds, the fetched document is
  injected whether or not writing it to the cache throws, and a failed write only leaves
  the cache as it was.
\<close>

theorem run_injected:
  assumes "mounted m"
  shows "(fetch US_SVG_URL = FetchRejected \<or> (\<exists>b. fetch US_SVG_URL = FetchResponse False b)
            \<or> fetch US_SVG_URL = FetchResponse True None \<longrightarrow>
           (\<forall>c. localStorage m US_SVG_CACHE_KEY = Some c \<and> c \<noteq> [] \<longrightarrow>
                innerHTML (run fetch sThrows False fallback m) = c) \<and>
           (localStorage m US_SVG_CACHE_KEY = None \<or> localStorage m US_SVG_CACHE_KEY = Some [] \<longrightarrow>
                innerHTML (run fetch sThrows False fallback m) = fallback) \<and>
           innerHTML (run fetch sThrows True fallback m) = fallback \<and>
           localStorage (run fetch sThrows gThrows fallback m) = localStorage m)
       \<and> (\<forall>t. fetch US_SVG_URL = FetchResponse True (Some t) \<longrightarrow>
             innerHTML (run fetch sThrows gThrows fallback m) = t \<and>
             localStorage (run fetch sThrows gThrows fallback m) =
               (if sThrows then localStorage m else (localStorage m)(US_SVG_CACHE_KEY \<mapsto> t)))"
  using assms by (auto simp add: run_def Let_def split: FetchOutcome.splits option.splits bool.splits)

theorem run_injected_witness:
  "innerHTML (run (exampleFetch FetchRejected) False False ''<svg id=bundled/>''
       (exampleLoad (Some ''<svg id=cached/>''))) = ''<svg id=cached/>''
   \<and> innerHTML (run (exampleFetch (FetchResponse False (Some ''Not Found''))) False False
       ''<svg id=bundled/>'' (exampleLoad None)) = ''<svg id=bundled/>''
   \<and> innerHTML (run (exampleFetch FetchRejected) False True ''<svg id=bundled/>''
       (exampleLoad (Some ''<svg id=cached/>''))) = ''<svg id=bundled/>''
   \<and> innerHTML (run (exampleFetch (FetchResponse True (Some ''<svg id=remote/>''))) True False
       ''<svg id=bundled/>'' (exampleLoad None)) = ''<svg id=remote/>''"
proof -
  have m: "mounted (exampleLoad c)" for c
    by (simp add: exampleLoad_def)
  have f: "exampleFetch r US_SVG_URL = r" for r
    by (simp add: exampleFetch_def)
  have c1: "localStorage (exampleLoad (Some ''<svg id=cached/>'')) US_SVG_CACHE_KEY
      = Some ''<svg id=cached/>''"
    by (simp add: exampleLoad_def)
  have c2: "localStorage (exampleLoad None) US_SVG_CACHE_KEY = None"
    by (simp add: exampleLoad_def)
  note a = run_injected [OF m, of "exampleFetch FetchRejected" "Some ''<svg id=cached/>''"
      False "''<svg id=bundled/>''" False]
  note b = run_injected [OF m, of "exampleFetch (FetchResponse False (Some ''Not Found''))" None
      False "''<svg id=bundled/>''" False]
  note c = run_injected [OF m, of "exampleFetch (FetchResponse True (Some ''<svg id=remote/>''))"
      None True "''<svg id=bundled/>''" False]
  show ?thesis
    using a b c unfolding f c1 c2 by simp
qed

section \<open>Profile draft: properties\<close>

lemma map_of_persistFields:
  "map_of (persistFields d fs r) k =
     (if k \<in> set fs \<and> map_of d k \<noteq> None then map_of d k else map_of r k)"
  unfolding persistFields_def
  by (induction fs arbitrary: r) (auto simp add: update_conv' split: option.splits)

lemma persisted_commitEditing:
  assumes "k \<notin> set fs"
  shows "persisted (snd (snd (commitEditing ok ownerId fs (ap, db)))) owner k = persisted db owner k"
  using assms
  by (simp add: commitEditing_def persisted_def Let_def map_of_persistFields split: option.splits)

text \<open>
  C9. For every draft, every backend and either settings tab, submitting the tab commits
  with that tab's field list, and every profile field outside the list keeps the value
  the backend held before, in the record of every owner, whatever the shared draft holds
  for it. The field lists of the two tabs are disjoint, so this covers every field owned
  by the other tab.
\<close>

theorem onSubmit_frame:
  assumes "k \<notin> set (tabFields tab)"
  shows "persisted (snd (snd (onSubmit tab ok userId (ap, db)))) owner k = persisted db owner k
       \<and> set (tabFields ExpertiseTab) \<inter> set (tabFields CapacityTab) = {}"
proof -
  have frame: "persisted (snd (snd (onSubmit tab ok userId (ap, db)))) owner k = persisted db owner k"
  proof (cases "userId = []")
    case True
    then show ?thesis by (simp add: onSubmit_def)
  next
    case False
    obtain res ap' db' where c: "commitEditing ok userId (tabFields tab) (ap, db) = (res, ap', db')"
      by (cases "commitEditing ok userId (tabFields tab) (ap, db)") auto
    from persisted_commitEditing [OF assms, of ok userId ap db owner] c
    have "persisted db' owner k = persisted db owner k" by simp
    with False c show ?thesis
      by (cases res) (simp_all add: onSubmit_def)
  qed
  have "set (tabFields ExpertiseTab) \<inter> set (tabFields CapacityTab) = {}"
    by simp
  with frame show ?thesis by simp
qed

theorem onSubmit_frame_witness:
  "persisted (snd (snd (onSubmit ExpertiseTab True ''user-1''
       (exampleProfile exampleDraft, exampleBackend)))) ''user-1'' ''firmSize'' = Some ''solo''
   \<and> persisted (snd (snd (onSubmit ExpertiseTab True ''user-1''
       (exampleProfile exampleDraft, exampleBackend)))) ''user-1'' ''primaryCity'' = Some ''Dallas''"
proof -
  have k: "''firmSize'' \<notin> set (tabFields ExpertiseTab)"
    by simp
  have old: "persisted exampleBackend ''user-1'' ''firmSize'' = Some ''solo''"
    by (simp add: persisted_def profile_defs)
  have new: "persisted (snd (snd (onSubmit ExpertiseTab True ''user-1''
       (exampleProfile exampleDraft, exampleBackend)))) ''user-1'' ''primaryCity'' = Some ''Dallas''"
    by (simp add: onSubmit_def commitEditing_def persisted_def map_of_persistFields profile_defs)
  from onSubmit_frame [OF k, of True "''user-1''" "exampleProfile exampleDraft" exampleBackend
      "''user-1''"]
  show ?thesis
    using old new by simp
qed

text \<open>The draft is dirty exactly when it and the baseline differ as maps from fields to
  values.\<close>

lemma isDirty_iff: "isDirty ap \<longleftrightarrow> map_of (draft ap) \<noteq> map_of (baseline ap)"
proof
  assume "isDirty ap"
  then show "map_of (draft ap) \<noteq> map_of (baseline ap)"
    by (auto simp add: isDirty_def list_ex_iff)
next
  assume "map_of (draft ap) \<noteq> map_of (baseline ap)"
  then obtain k where k: "map_of (draft ap) k \<noteq> map_of (baseline ap) k"
    by (auto simp add: fun_eq_iff)
  then have "k \<in> fst ` set (draft ap) \<or> k \<in> fst ` set (baseline ap)"
    by (metis map_of_eq_None_iff)
  with k show "isDirty ap"
    by (auto simp add: isDirty_def list_ex_iff)
qed

lemma cancelEditing_clean:
  "\<not> isEditing (cancelEditing ap)" "draft (cancelEditing ap) = baseline ap"
    "baseline (cancelEditing ap) = baseline ap" "\<not> isDirty (cancelEditing ap)"
  by (simp_all add: cancelEditing_def isDirty_def list_ex_iff)

text \<open>
  C10. When a settings tab has mounted and loaded the profile (for a signed-in user;
  without one nothing is loaded): if the draft state machine is editing and the draft is
  not dirty, the tab cancels the editing, which leaves the machine idle with the draft
  equal to the baseline and not dirty; if it is editing and dirty, nothing is cancelled
  and the state is as the load left it; if it is idle, it is left as it is.
\<close>

theorem onMounted_reconciles:
  "let ap1 = (if userId \<noteq> [] then loadProfile userId ap else ap);
       ap2 = onMounted loadProfile userId ap
   in (isEditing ap1 \<and> \<not> isDirty ap1 \<longrightarrow>
         ap2 = cancelEditing ap1 \<and> \<not> isEditing ap2 \<and> \<not> isDirty ap2 \<and>
         draft ap2 = baseline ap1 \<and> baseline ap2 = baseline ap1)
    \<and> (isEditing ap1 \<and> isDirty ap1 \<longrightarrow> ap2 = ap1)
    \<and> (\<not> isEditing ap1 \<longrightarrow> ap2 = ap1)"
  by (simp add: onMounted_def Let_def cancelEditing_clean)

theorem onMounted_reconciles_witness:
  "onMounted exampleLoadProfile ''user-1'' (exampleProfile exampleRecord) =
     \<lparr>baseline = exampleRecord, draft = exampleRecord, isEditing = False\<rparr>
   \<and> onMounted exampleLoadProfile ''user-1'' (exampleProfile exampleDraft) =
     exampleProfile exampleDraft"
proof -
  have e: "isEditing (exampleProfile d)" for d
    by (simp add: exampleProfile_def)
  have clean: "\<not> isDirty (exampleProfile exampleRecord)"
    by (simp add: isDirty_def profile_defs)
  have dirty: "isDirty (exampleProfile exampleDraft)"
    by (simp add: isDirty_def profile_defs)
  have c: "cancelEditing (exampleProfile exampleRecord) =
      \<lparr>baseline = exampleRecord, draft = exampleRecord, isEditing = False\<rparr>"
    by (simp add: cancelEditing_def exampleProfile_def)
  from onMounted_reconciles [of "''user-1''" exampleLoadProfile "exampleProfile exampleRecord"]
    onMounted_reconciles [of "''user-1''" exampleLoadProfile "exampleProfile exampleDraft"]
  show ?thesis
    using e clean dirty c by (simp add: Let_def exampleLoadProfile_def)
qed

end
